theory Spec2Isabelle
  imports Main "HOL-Library.Word" "HOL-Library.Signed_Division"
begin

unbundle bit_operations_syntax

section \<open>Go machine types\<close>

text \<open>
  The kqueue backend only type-checks where \<open>Kevent_t.Ident\<close> is a \<open>uint64\<close>, that is on
  the 64-bit targets; Go's \<open>int\<close>, \<open>uint\<close> and \<open>uintptr\<close> are 64 bits wide here, for both
  backends. A signed and an unsigned Go type of one width are the same word type: the
  sign is in the comparison (\<open><s\<close>, \<open>\<le>s\<close>) and in the reading (\<open>sint\<close>, \<open>uint\<close>).
\<close>

type_synonym go_int = "64 word"
type_synonym int64 = "64 word"
type_synonym uint64 = "64 word"
type_synonym int32 = "32 word"
type_synonym uint32 = "32 word"
type_synonym int16 = "16 word"
type_synonym uint16 = "16 word"

text \<open>\<open>time.Duration\<close> is an \<open>int64\<close> count of nanoseconds; \<open>syscall.Errno\<close> is a \<open>uintptr\<close>.\<close>

type_synonym Duration = int64
type_synonym Errno = "64 word"

definition Millisecond :: Duration where
  "Millisecond = 1000000"

text \<open>Go's \<open>/\<close> on \<open>int64\<close> truncates towards zero; the quotient wraps to 64 bits.\<close>

definition div_int64 :: "int64 \<Rightarrow> int64 \<Rightarrow> int64" where
  "div_int64 a b = word_of_int (sint a sdiv sint b)"

text \<open>The conversions of the source: \<open>int32(fd)\<close> keeps the low 32 bits, \<open>int(x)\<close> of an
  \<open>int32\<close> extends the sign, \<open>uint64(uint(fd))\<close> and \<open>int(x)\<close> of a \<open>uint64\<close> keep all 64
  bits, \<open>syscall.Errno(x)\<close> of an \<open>int64\<close> keeps all 64 bits.\<close>

definition int32_of_int :: "go_int \<Rightarrow> int32" where
  "int32_of_int x = ucast x"

definition int_of_int32 :: "int32 \<Rightarrow> go_int" where
  "int_of_int32 x = scast x"

definition uint64_of_int :: "go_int \<Rightarrow> uint64" where
  "uint64_of_int x = ucast (ucast x :: 64 word)"

definition int_of_uint64 :: "uint64 \<Rightarrow> go_int" where
  "int_of_uint64 x = ucast x"

definition Errno_of_int64 :: "int64 \<Rightarrow> Errno" where
  "Errno_of_int64 x = ucast x"

text \<open>The error numbers the source names; they have these values on Linux and on the BSDs.\<close>

definition EPERM :: Errno where "EPERM = 1"
definition ENOENT :: Errno where "ENOENT = 2"
definition EINTR :: Errno where "EINTR = 4"
definition EBADF :: Errno where "EBADF = 9"
definition EEXIST :: Errno where "EEXIST = 17"

section \<open>Errors\<close>

text \<open>
  A Go \<open>error\<close> value of the package: one of its sentinel variables, or the value of a
  \<open>fmt.Errorf\<close> call. \<open>Errorf_w f e\<close> is \<open>fmt.Errorf(f, e)\<close> for a format \<open>f\<close> that ends in
  \<open>%w\<close> and wraps the error number \<open>e\<close>; \<open>Errorf_T a t b\<close> is \<open>fmt.Errorf("a%Tb", x)\<close> for a
  value \<open>x\<close> whose dynamic type prints as \<open>t\<close>. A nil \<open>error\<close> is \<open>None\<close>.

  Modelled from the spec: \<open>ErrClosed\<close> (the spec's \<open>ClosedError\<close>) is returned by kqueue.go
  but its declaration is not among the sources; it is a sentinel like \<open>ErrTimeout\<close>.
\<close>

datatype error =
    ErrTimeout
  | ErrClosed
  | ErrWatchable
  | Errorf_w string Errno
  | Errorf_T string string string

section \<open>The epoll backend\<close>

record EpollEvent =
  Events :: uint32
  Fd :: int32
  Pad :: int32

definition EPOLLIN :: uint32 where "EPOLLIN = 1"
definition EPOLL_CTL_ADD :: go_int where "EPOLL_CTL_ADD = 1"
definition EPOLL_CTL_DEL :: go_int where "EPOLL_CTL_DEL = 2"

record Watch_epoll =
  epollFD :: go_int

text \<open>
  The operating system is a parameter: a state \<open>'s\<close> and one function per system call,
  from the state and the call's arguments to the call's results and the next state.
  \<open>syscall.EpollWait(epfd, buf[:], msec)\<close> with the one-slot \<open>buf\<close> takes the slot's content
  and gives \<open>n\<close>, the slot's content after the call, and \<open>err\<close>.
\<close>

type_synonym 's EpollWait_sys =
  "'s \<Rightarrow> go_int \<Rightarrow> EpollEvent \<Rightarrow> go_int \<Rightarrow> (go_int \<times> EpollEvent \<times> Errno option) \<times> 's"

type_synonym 's EpollCtl_sys =
  "'s \<Rightarrow> go_int \<Rightarrow> go_int \<Rightarrow> go_int \<Rightarrow> EpollEvent \<Rightarrow> Errno option \<times> 's"

text \<open>The first three lines of \<open>AwaitFDWithRead\<close>: the timeout in milliseconds.\<close>

definition epoll_msec :: "Duration \<Rightarrow> go_int" where
  "epoll_msec timeout =
     (let msec = div_int64 (timeout + Millisecond - 1) Millisecond
      in if timeout <s 0 then - 1 else msec)"

text \<open>The \<open>for\<close> loop of \<open>AwaitFDWithRead\<close> with the \<open>return\<close> after it. A kernel that
  answers \<open>EINTR\<close> for ever keeps the loop running: the result is \<open>None\<close>.\<close>

partial_function (option) EpollWait_loop ::
  "'s EpollWait_sys \<Rightarrow> go_int \<Rightarrow> go_int \<Rightarrow> EpollEvent \<Rightarrow> 's
     \<Rightarrow> ((go_int \<times> error option) \<times> 's) option" where
  "EpollWait_loop sys epfd msec buf s =
     (case sys s epfd buf msec of ((n, buf', err), s') \<Rightarrow>
        (case err of
           None \<Rightarrow>
             if n = 0 then Some ((0, Some ErrTimeout), s')
             else Some ((int_of_int32 (Fd buf'), None), s')
         | Some e \<Rightarrow>
             if e = EINTR then EpollWait_loop sys epfd msec buf' s'
             else Some ((0, Some (Errorf_w ''Watch unavailable due epoll_wait(2) error %w'' e)), s')))"

declare EpollWait_loop.simps [code]

definition AwaitFDWithRead_epoll ::
  "'s EpollWait_sys \<Rightarrow> Watch_epoll \<Rightarrow> Duration \<Rightarrow> 's \<Rightarrow> ((go_int \<times> error option) \<times> 's) option" where
  "AwaitFDWithRead_epoll sys w timeout s =
     EpollWait_loop sys (epollFD w) (epoll_msec timeout) \<lparr>Events = 0, Fd = 0, Pad = 0\<rparr> s"

definition IncludeFD_epoll_event :: "go_int \<Rightarrow> EpollEvent" where
  "IncludeFD_epoll_event fd = \<lparr>Events = EPOLLIN, Fd = int32_of_int fd, Pad = 0\<rparr>"

definition IncludeFD_epoll ::
  "'s EpollCtl_sys \<Rightarrow> Watch_epoll \<Rightarrow> go_int \<Rightarrow> 's \<Rightarrow> error option \<times> 's" where
  "IncludeFD_epoll sys w fd s =
     (let event = IncludeFD_epoll_event fd
      in case sys s (epollFD w) EPOLL_CTL_ADD fd event of (err, s') \<Rightarrow>
        (case err of
           None \<Rightarrow> (None, s')
         | Some e \<Rightarrow>
             if e = EEXIST then (None, s')
             else if e = EPERM then (Some ErrWatchable, s')
             else (Some (Errorf_w ''Watch include of file lost on epoll_ctl(2) error %w'' e), s')))"

definition ExcludeFD_epoll_event :: "go_int \<Rightarrow> EpollEvent" where
  "ExcludeFD_epoll_event fd = \<lparr>Events = EPOLLIN, Fd = int32_of_int fd, Pad = 0\<rparr>"

definition ExcludeFD_epoll ::
  "'s EpollCtl_sys \<Rightarrow> Watch_epoll \<Rightarrow> go_int \<Rightarrow> 's \<Rightarrow> error option \<times> 's" where
  "ExcludeFD_epoll sys w fd s =
     (let event = ExcludeFD_epoll_event fd
      in case sys s (epollFD w) EPOLL_CTL_DEL fd event of (err, s') \<Rightarrow>
        (case err of
           None \<Rightarrow> (None, s')
         | Some e \<Rightarrow>
             if e = ENOENT then (None, s')
             else if e = EPERM then (Some ErrWatchable, s')
             else (Some (Errorf_w ''Watch exclude of file lost on epoll_ctl(2) error %w'' e), s')))"

section \<open>The kqueue backend\<close>

record Kevent_t =
  Ident :: uint64
  Filter :: int16
  Flags :: uint16
  Fflags :: uint32
  Data :: int64
  Udata :: "64 word"

record Timespec =
  Sec :: int64
  Nsec :: int64

definition EV_ADD :: uint16 where "EV_ADD = 0x1"
definition EV_DELETE :: uint16 where "EV_DELETE = 0x2"
definition EV_ERROR :: uint16 where "EV_ERROR = 0x4000"
definition EVFILT_READ :: int16 where "EVFILT_READ = - 1"

text \<open>The zero value of \<open>syscall.Kevent_t\<close>, as \<open>var buf [2]syscall.Kevent_t\<close> and the
  \<open>{}\<close> of the composite literals give it.\<close>

definition Kevent_zero :: Kevent_t where
  "Kevent_zero = \<lparr>Ident = 0, Filter = 0, Flags = 0, Fflags = 0, Data = 0, Udata = 0\<rparr>"

record Watch_kqueue =
  queueFD :: go_int
  roundRobin :: go_int

text \<open>
  The source calls \<open>syscall.Kevent\<close> in two shapes. \<open>Kevent(kq, nil, buf[:], tsp)\<close> has no
  change and the two-slot \<open>buf\<close>: it takes the two slots' content and gives \<open>n\<close>, their
  content after the call, and \<open>err\<close>. \<open>Kevent(kq, events[:1], events[1:], &noBlock)\<close> has the
  one change \<open>events[0]\<close> and the one-slot event list \<open>events[1]\<close>. A nil \<open>*Timespec\<close> is
  \<open>None\<close>. \<open>syscall.NsecToTimespec\<close> is a parameter too.
\<close>

type_synonym 's Kevent_wait_sys =
  "'s \<Rightarrow> go_int \<Rightarrow> Kevent_t \<times> Kevent_t \<Rightarrow> Timespec option
     \<Rightarrow> (go_int \<times> (Kevent_t \<times> Kevent_t) \<times> Errno option) \<times> 's"

type_synonym 's Kevent_change_sys =
  "'s \<Rightarrow> go_int \<Rightarrow> Kevent_t \<Rightarrow> Kevent_t \<Rightarrow> Timespec option
     \<Rightarrow> (go_int \<times> Kevent_t \<times> Errno option) \<times> 's"

text \<open>The first lines of \<open>AwaitFDWithRead\<close>: the timeout pointer.\<close>

definition kqueue_tsp :: "(int64 \<Rightarrow> Timespec) \<Rightarrow> Duration \<Rightarrow> Timespec option" where
  "kqueue_tsp NsecToTimespec timeout =
     (let ts = NsecToTimespec timeout
      in if 0 \<le>s timeout then Some ts else None)"

text \<open>The loop labelled \<open>ReadEvents\<close>: \<open>Inr (bufN, buf)\<close> is the \<open>break\<close>, \<open>Inl e\<close> is
  \<open>return 0, e\<close>, and \<open>None\<close> a loop that never ends.\<close>

partial_function (option) ReadEvents ::
  "'s Kevent_wait_sys \<Rightarrow> go_int \<Rightarrow> Timespec option \<Rightarrow> Kevent_t \<times> Kevent_t \<Rightarrow> 's
     \<Rightarrow> ((error + go_int \<times> (Kevent_t \<times> Kevent_t)) \<times> 's) option" where
  "ReadEvents sys kq tsp buf s =
     (case sys s kq buf tsp of ((bufN, buf', err), s') \<Rightarrow>
        (case err of
           None \<Rightarrow> Some (Inr (bufN, buf'), s')
         | Some e \<Rightarrow>
             if e = EBADF then Some (Inl ErrClosed, s')
             else if e = EINTR then ReadEvents sys kq tsp buf' s'
             else Some (Inl (Errorf_w ''Watch unavailable due kevent(2) error %w'' e), s')))"

declare ReadEvents.simps [code]

text \<open>\<open>buf[i]\<close> for the index \<open>w.roundRobin&1\<close>, which is 0 or 1.\<close>

definition index2 :: "Kevent_t \<times> Kevent_t \<Rightarrow> go_int \<Rightarrow> Kevent_t" where
  "index2 buf i = (if i = 0 then fst buf else snd buf)"

definition AwaitFDWithRead_kqueue ::
  "(int64 \<Rightarrow> Timespec) \<Rightarrow> 's Kevent_wait_sys \<Rightarrow> Watch_kqueue \<Rightarrow> Duration \<Rightarrow> 's
     \<Rightarrow> (((go_int \<times> error option) \<times> Watch_kqueue) \<times> 's) option" where
  "AwaitFDWithRead_kqueue NsecToTimespec sys w timeout s =
     (case ReadEvents sys (queueFD w) (kqueue_tsp NsecToTimespec timeout)
             (Kevent_zero, Kevent_zero) s of
        None \<Rightarrow> None
      | Some (Inl e, s') \<Rightarrow> Some (((0, Some e), w), s')
      | Some (Inr (bufN, buf), s') \<Rightarrow>
          if bufN = 0 then Some (((0, Some ErrTimeout), w), s')
          else if bufN = 1 then Some (((int_of_uint64 (Ident (fst buf)), None), w), s')
          else
            (let w' = w\<lparr>roundRobin := roundRobin w + 1\<rparr>
             in Some (((int_of_uint64 (Ident (index2 buf (roundRobin w' AND 1))), None), w'), s')))"

text \<open>
  \<open>IncludeFD\<close> and \<open>ExcludeFD\<close> build the change \<open>events[0]\<close> and leave \<open>events[1]\<close> zero for
  the kernel's answer. Their first test is \<open>err != nil && err != syscall.EINTR\<close>: the
  \<open>case\<close> below is on \<open>err\<close> with \<open>EINTR\<close> taken as no error.
\<close>

definition IncludeFD_kqueue_change :: "go_int \<Rightarrow> Kevent_t" where
  "IncludeFD_kqueue_change fd =
     \<lparr>Ident = uint64_of_int fd, Filter = EVFILT_READ, Flags = EV_ADD,
      Fflags = 0, Data = 0, Udata = 0\<rparr>"

definition IncludeFD_kqueue ::
  "'s Kevent_change_sys \<Rightarrow> Watch_kqueue \<Rightarrow> go_int \<Rightarrow> 's \<Rightarrow> error option \<times> 's" where
  "IncludeFD_kqueue sys w fd s =
     (let fd64 = uint64_of_int fd;
          noBlock = \<lparr>Sec = 0, Nsec = 0\<rparr>
      in case sys s (queueFD w) (IncludeFD_kqueue_change fd) Kevent_zero (Some noBlock) of
        ((n, events1, err), s') \<Rightarrow>
          (case (if err = Some EINTR then None else err) of
             Some e \<Rightarrow>
               if e = EBADF then (Some ErrClosed, s')
               else (Some (Errorf_w ''Watch IncludeFD lost on kevent(2) error %w'' e), s')
           | None \<Rightarrow>
               if n \<noteq> 0 \<and> Ident events1 = fd64 \<and> Flags events1 AND EV_ERROR \<noteq> 0
               then (Some (Errorf_w ''Watch IncludeFD denied by kevent(2) with error %w''
                             (Errno_of_int64 (Data events1))), s')
               else (None, s')))"

definition ExcludeFD_kqueue_change :: "go_int \<Rightarrow> Kevent_t" where
  "ExcludeFD_kqueue_change fd =
     \<lparr>Ident = uint64_of_int fd, Filter = EVFILT_READ, Flags = EV_DELETE,
      Fflags = 0, Data = 0, Udata = 0\<rparr>"

definition ExcludeFD_kqueue ::
  "'s Kevent_change_sys \<Rightarrow> Watch_kqueue \<Rightarrow> go_int \<Rightarrow> 's \<Rightarrow> error option \<times> 's" where
  "ExcludeFD_kqueue sys w fd s =
     (let fd64 = uint64_of_int fd;
          noBlock = \<lparr>Sec = 0, Nsec = 0\<rparr>
      in case sys s (queueFD w) (ExcludeFD_kqueue_change fd) Kevent_zero (Some noBlock) of
        ((n, events1, err), s') \<Rightarrow>
          (case (if err = Some EINTR then None else err) of
             Some e \<Rightarrow>
               if e = EBADF then (Some ErrClosed, s')
               else (Some (Errorf_w ''Watch ExcludeFD lost on kevent(2) error %w'' e), s')
           | None \<Rightarrow>
               if n \<noteq> 0 \<and> Ident events1 = fd64 \<and> Flags events1 AND EV_ERROR \<noteq> 0
               then (let err = Errno_of_int64 (Data events1)
                     in if err \<noteq> ENOENT
                        then (Some (Errorf_w ''Watch ExcludeFD denied by kevent(2) with error %w'' err), s')
                        else (None, s'))
               else (None, s')))"

section \<open>fdmom.go: the file of a listener or a connection\<close>

text \<open>
  A \<open>net.Conn\<close> or \<open>net.Listener\<close> interface value is nil (\<open>None\<close>) or holds a value of
  some dynamic type. The source looks at three things of it: the name \<open>%T\<close> prints, the
  method \<open>NetConn() net.Conn\<close> when the type has one (the \<open>netConner\<close> assertion holds; the
  connection it returns may be nil), and the method \<open>File() (*os.File, error)\<close> when the
  type has one (the \<open>filer\<close> assertion holds). \<open>'r\<close> is what a \<open>File\<close> call returns, the
  pair of a file and an error, handed on as it is. \<open>Inl e\<close> is \<open>return nil, e\<close>.
\<close>

datatype 'r conn =
  Conn (conn_type: string) (NetConn: "'r conn option option") (conn_File: "'r option")

datatype 'r listener =
  Listener (listener_type: string) (listener_File: "'r option")

definition ListenerFile :: "'r listener option \<Rightarrow> error + 'r" where
  "ListenerFile l =
     (case l of
        None \<Rightarrow> Inl (Errorf_T ''listener '' ''<nil>'' '' does not provide its file'')
      | Some v \<Rightarrow>
          (case listener_File v of
             None \<Rightarrow> Inl (Errorf_T ''listener '' (listener_type v) '' does not provide its file'')
           | Some r \<Rightarrow> Inr r))"

definition ConnFile :: "'r conn option \<Rightarrow> error + 'r" where
  "ConnFile conn =
     (let conn = (case conn of
                    None \<Rightarrow> conn
                  | Some v \<Rightarrow> (case NetConn v of None \<Rightarrow> conn | Some nested \<Rightarrow> nested))
      in case conn of
           None \<Rightarrow> Inl (Errorf_T ''connection '' ''<nil>'' '' does not provide its file'')
         | Some v \<Rightarrow>
             (case conn_File v of
                None \<Rightarrow> Inl (Errorf_T ''connection '' (conn_type v) '' does not provide its file'')
              | Some r \<Rightarrow> Inr r))"

section \<open>Kernels to run the model on\<close>

text \<open>
  None of this section is in the source. A scripted kernel answers each call with the
  next reply of its script, whatever the arguments, and with the default once the script
  is used up. A logging kernel runs another kernel and records the timeout of each wait.
\<close>

definition scripted :: "'r \<Rightarrow> 'r list \<Rightarrow> 'r \<times> 'r list" where
  "scripted d rs = (case rs of [] \<Rightarrow> (d, []) | r # rs' \<Rightarrow> (r, rs'))"

definition scripted_EpollWait :: "(go_int \<times> EpollEvent \<times> Errno option) list EpollWait_sys" where
  "scripted_EpollWait rs epfd buf msec = scripted (0, buf, None) rs"

definition scripted_EpollCtl :: "Errno option list EpollCtl_sys" where
  "scripted_EpollCtl rs epfd op fd event = scripted None rs"

definition scripted_Kevent_wait ::
  "(go_int \<times> (Kevent_t \<times> Kevent_t) \<times> Errno option) list Kevent_wait_sys" where
  "scripted_Kevent_wait rs kq buf tsp = scripted (0, buf, None) rs"

definition scripted_Kevent_change :: "(go_int \<times> Kevent_t \<times> Errno option) list Kevent_change_sys" where
  "scripted_Kevent_change rs kq change slot tsp = scripted (0, slot, None) rs"

definition logged_EpollWait :: "'s EpollWait_sys \<Rightarrow> ('s \<times> go_int list) EpollWait_sys" where
  "logged_EpollWait sys sl epfd buf msec =
     (case sys (fst sl) epfd buf msec of (r, s') \<Rightarrow> (r, (s', snd sl @ [msec])))"

definition logged_Kevent_wait ::
  "'s Kevent_wait_sys \<Rightarrow> ('s \<times> Timespec option list) Kevent_wait_sys" where
  "logged_Kevent_wait sys sl kq buf tsp =
     (case sys (fst sl) kq buf tsp of (r, s') \<Rightarrow> (r, (s', snd sl @ [tsp])))"

text \<open>
  For the parameter \<open>NsecToTimespec\<close> the runs on concrete input take the function of
  Go's \<open>syscall\<close> package, which is not part of the repository: the seconds and the rest
  in nanoseconds, with Go's truncating \<open>/\<close> and \<open>%\<close> and a rest that is never negative.
\<close>

definition mod_int64 :: "int64 \<Rightarrow> int64 \<Rightarrow> int64" where
  "mod_int64 a b = word_of_int (sint a smod sint b)"

definition NsecToTimespec :: "int64 \<Rightarrow> Timespec" where
  "NsecToTimespec nsec =
     (let sec = div_int64 nsec 1000000000;
          rest = mod_int64 nsec 1000000000
      in if rest <s 0 then \<lparr>Sec = sec - 1, Nsec = rest + 1000000000\<rparr>
         else \<lparr>Sec = sec, Nsec = rest\<rparr>)"

text \<open>
  A kernel with a clock, in milliseconds, for an epoll instance that watches nothing, in a
  process that receives a signal every \<open>period\<close> milliseconds. A wait that a signal
  reaches before its timeout is over fails with \<open>EINTR\<close> at the time of the signal; another
  wait returns 0 when its timeout is over.
\<close>

record idle_kernel =
  now :: nat
  next_signal :: nat

definition idle_EpollWait :: "nat \<Rightarrow> idle_kernel EpollWait_sys" where
  "idle_EpollWait period k epfd buf msec =
     (if msec <s 0 \<or> int (next_signal k) < int (now k) + sint msec
      then ((- 1, buf, Some EINTR),
            \<lparr>now = max (now k) (next_signal k), next_signal = next_signal k + period\<rparr>)
      else ((0, buf, None), k\<lparr>now := now k + nat (sint msec)\<rparr>))"

text \<open>
  The kernel interrupts the next \<open>k\<close> waits: \<open>Some (buf', s')\<close> when each of the \<open>k\<close> calls
  from \<open>s\<close> on fails with \<open>EINTR\<close>, with the buffer and the state they leave.
\<close>

fun EpollWait_interrupted ::
  "'s EpollWait_sys \<Rightarrow> go_int \<Rightarrow> go_int \<Rightarrow> nat \<Rightarrow> EpollEvent \<Rightarrow> 's \<Rightarrow> (EpollEvent \<times> 's) option" where
  "EpollWait_interrupted sys epfd msec 0 buf s = Some (buf, s)"
| "EpollWait_interrupted sys epfd msec (Suc k) buf s =
     (case sys s epfd buf msec of ((n, buf', err), s') \<Rightarrow>
        if err = Some EINTR then EpollWait_interrupted sys epfd msec k buf' s' else None)"

fun Kevent_interrupted ::
  "'s Kevent_wait_sys \<Rightarrow> go_int \<Rightarrow> Timespec option \<Rightarrow> nat \<Rightarrow> Kevent_t \<times> Kevent_t \<Rightarrow> 's
     \<Rightarrow> ((Kevent_t \<times> Kevent_t) \<times> 's) option" where
  "Kevent_interrupted sys kq tsp 0 buf s = Some (buf, s)"
| "Kevent_interrupted sys kq tsp (Suc k) buf s =
     (case sys s kq buf tsp of ((n, buf', err), s') \<Rightarrow>
        if err = Some EINTR then Kevent_interrupted sys kq tsp k buf' s' else None)"

section \<open>A small kernel with a watch list\<close>

text \<open>
  Modelled from the spec: the event queue of the kernel is not part of the repository.
  By the glossary an event queue tracks a registered set of descriptors and reports
  their readiness in answer to a wait call, readiness is data that a read would find,
  and a level-triggered queue reports a descriptor on every wait until its pending data
  is drained. The kernel below is that and no more: the registrations in the order they
  were made, each with the event the caller registered, and the descriptors with unread
  data. A wait reports the first registrations that have unread data, as many as the
  buffer holds. Nothing else changes the state, so a wait that finds nothing ready
  returns 0 when it has a timeout; with no timeout it would never return, and here it
  is interrupted every time, which keeps \<open>AwaitFDWithRead\<close> in its loop.

  For epoll a descriptor is an \<open>int\<close> from 0 to \<open>2^31 - 1\<close>, and \<open>epoll_ctl\<close> answers
  \<open>EBADF\<close> for another one, \<open>EEXIST\<close> for an add of a registered descriptor, \<open>ENOENT\<close> for
  a delete of one that is not registered and \<open>EINVAL\<close> for another operation. For kqueue
  a registration goes by the \<open>Ident\<close> of the change: \<open>EV_DELETE\<close> of one that is not
  registered is answered by the change with \<open>EV_ERROR\<close> and \<open>ENOENT\<close> in the event list,
  \<open>EV_ADD\<close> replaces the registration, and a change that went through is followed by the
  first ready event, as the call has room for one event and a zero timeout.
\<close>

definition EINVAL :: Errno where "EINVAL = 22"

definition is_descriptor :: "go_int \<Rightarrow> bool" where
  "is_descriptor fd \<longleftrightarrow> 0 \<le>s fd \<and> fd \<le>s 2147483647"

record mini_epoll =
  registered :: "(go_int \<times> EpollEvent) list"
  unread :: "go_int list"

definition mini_EpollCtl :: "mini_epoll EpollCtl_sys" where
  "mini_EpollCtl k epfd op fd event =
     (if \<not> is_descriptor fd then (Some EBADF, k)
      else if op = EPOLL_CTL_ADD then
        (if fd \<in> fst ` set (registered k) then (Some EEXIST, k)
         else (None, k\<lparr>registered := registered k @ [(fd, event)]\<rparr>))
      else if op = EPOLL_CTL_DEL then
        (if fd \<in> fst ` set (registered k)
         then (None, k\<lparr>registered := filter (\<lambda>p. fst p \<noteq> fd) (registered k)\<rparr>)
         else (Some ENOENT, k))
      else (Some EINVAL, k))"


record mini_kqueue =
  knotes :: "Kevent_t list"
  pending :: "uint64 list"

definition mini_ready :: "mini_kqueue \<Rightarrow> Kevent_t list" where
  "mini_ready k = filter (\<lambda>e. Ident e \<in> set (pending k)) (knotes k)"

definition mini_Kevent_change :: "mini_kqueue Kevent_change_sys" where
  "mini_Kevent_change k kq change slot tsp =
     (if Flags change AND EV_DELETE \<noteq> 0 \<and> Ident change \<notin> Ident ` set (knotes k)
      then ((1, change\<lparr>Flags := EV_ERROR, Data := ENOENT\<rparr>, None), k)
      else
        (let rest = filter (\<lambda>e. Ident e \<noteq> Ident change) (knotes k);
             k' = (if Flags change AND EV_DELETE \<noteq> 0 then k\<lparr>knotes := rest\<rparr>
                   else if Flags change AND EV_ADD \<noteq> 0 then k\<lparr>knotes := rest @ [change]\<rparr>
                   else k)
         in case mini_ready k' of
              [] \<Rightarrow> ((0, slot, None), k')
            | e # es \<Rightarrow> ((1, e, None), k')))"









section \<open>The timeout in milliseconds\<close>

lemma epoll_msec_negative: "timeout <s 0 \<Longrightarrow> epoll_msec timeout = - 1"
  by (simp add: epoll_msec_def)

lemma epoll_msec_zero: "epoll_msec 0 = 0"
  by (simp add: epoll_msec_def div_int64_def Millisecond_def signed_divide_int_def word_sless_alt)

lemma sint_word_of_int_64:
  "- 9223372036854775808 \<le> k \<Longrightarrow> k \<le> 9223372036854775807 \<Longrightarrow> sint (word_of_int k :: 64 word) = k"
  by (simp add: sint_sbintrunc' signed_take_bit_int_eq_self)

lemma epoll_msec_ceiling:
  assumes "0 \<le> sint timeout" and "sint timeout \<le> 9223372036854775807 - 999999"
  shows "sint (epoll_msec timeout) = (sint timeout + 999999) div 1000000"
proof -
  have a: "timeout + Millisecond - 1 = timeout + 999999"
    by (simp add: Millisecond_def)
  have w: "timeout + 999999 = word_of_int (sint timeout + 999999)"
    by simp
  have "sint (timeout + 999999) = sint (word_of_int (sint timeout + 999999) :: 64 word)"
    using w by (rule arg_cong)
  also have "\<dots> = sint timeout + 999999"
    using assms by (intro sint_word_of_int_64) simp_all
  finally have s: "sint (timeout + Millisecond - 1) = sint timeout + 999999"
    by (simp only: a)
  have q: "(sint timeout + 999999) sdiv 1000000 = (sint timeout + 999999) div 1000000"
    using assms by (simp add: signed_divide_int_def sgn_if)
  have m: "sint Millisecond = 1000000"
    by (simp add: Millisecond_def)
  have "\<not> timeout <s 0"
    using assms by (simp add: word_sless_alt)
  then have "epoll_msec timeout = div_int64 (timeout + Millisecond - 1) Millisecond"
    by (simp add: epoll_msec_def)
  also have "\<dots> = word_of_int ((sint timeout + 999999) sdiv 1000000)"
    by (simp only: div_int64_def s m)
  also have "\<dots> = word_of_int ((sint timeout + 999999) div 1000000)"
    by (simp only: q)
  finally have "sint (epoll_msec timeout)
      = sint (word_of_int ((sint timeout + 999999) div 1000000) :: 64 word)"
    by (rule arg_cong)
  also have "\<dots> = (sint timeout + 999999) div 1000000"
    using assms by (intro sint_word_of_int_64) linarith+
  finally show ?thesis .
qed

lemma epoll_msec_rounds_up:
  assumes "0 \<le> sint timeout" and "sint timeout \<le> 9223372036854775807 - 999999"
  shows "sint timeout \<le> sint (epoll_msec timeout) * 1000000
       \<and> sint (epoll_msec timeout) * 1000000 < sint timeout + 1000000"
  unfolding epoll_msec_ceiling [OF assms] by linarith

lemma kqueue_tsp_negative: "timeout <s 0 \<Longrightarrow> kqueue_tsp N timeout = None"
  by (auto simp add: kqueue_tsp_def word_sless_alt word_sle_eq)

lemma kqueue_tsp_not_negative: "0 \<le>s timeout \<Longrightarrow> kqueue_tsp N timeout = Some (N timeout)"
  by (simp add: kqueue_tsp_def)

text \<open>
  C1. A negative timeout gives \<open>-1\<close> (epoll) or a nil pointer (kqueue), zero gives 0 or
  the \<open>Timespec\<close> of 0 nanoseconds, and a timeout from 0 to \<open>math.MaxInt64 - 999999\<close>
  nanoseconds gives the least count of milliseconds that is not shorter (epoll) or the
  \<open>Timespec\<close> of just these nanoseconds (kqueue), as the lemmas above say. The inline
  comment of the epoll backend promises that the timeout rounds up, and the documentation
  that a positive timeout expires with \<open>ErrTimeout\<close>. Not so for the last 999999 durations:
  at \<open>math.MaxInt64\<close> nanoseconds the addition \<open>timeout + time.Millisecond - 1\<close> wraps
  around, and the millisecond count handed to \<open>epoll_wait\<close> is negative, not the ceiling
  9223372036855 of the timeout over one millisecond.
\<close>

theorem C1_epoll_msec_wraps:
  "sint (epoll_msec 9223372036854775807) = - 9223372036853
   \<and> (sint (9223372036854775807 :: Duration) + 999999) div 1000000 = 9223372036855"
  by (simp add: epoll_msec_def div_int64_def Millisecond_def signed_divide_int_def word_sless_alt)


section \<open>The wait loops\<close>

lemma EpollWait_loop_step:
  "sys s epfd buf msec = ((n, buf', err), s') \<Longrightarrow>
   EpollWait_loop sys epfd msec buf s =
     (case err of
        None \<Rightarrow> if n = 0 then Some ((0, Some ErrTimeout), s')
                else Some ((int_of_int32 (Fd buf'), None), s')
      | Some e \<Rightarrow> if e = EINTR then EpollWait_loop sys epfd msec buf' s'
                  else Some ((0, Some (Errorf_w ''Watch unavailable due epoll_wait(2) error %w'' e)), s'))"
  by (subst EpollWait_loop.simps) simp

lemma ReadEvents_step:
  "sys s kq buf tsp = ((bufN, buf', err), s') \<Longrightarrow>
   ReadEvents sys kq tsp buf s =
     (case err of
        None \<Rightarrow> Some (Inr (bufN, buf'), s')
      | Some e \<Rightarrow>
          if e = EBADF then Some (Inl ErrClosed, s')
          else if e = EINTR then ReadEvents sys kq tsp buf' s'
          else Some (Inl (Errorf_w ''Watch unavailable due kevent(2) error %w'' e), s'))"
  by (subst ReadEvents.simps) simp

lemma EpollWait_loop_outcome:
  assumes "EpollWait_loop sys epfd msec buf s = Some y"
  shows "snd (fst y) = None \<or> snd (fst y) = Some ErrTimeout
         \<or> (\<exists>e. e \<noteq> EINTR \<and> snd (fst y) = Some (Errorf_w ''Watch unavailable due epoll_wait(2) error %w'' e))"
  by (rule EpollWait_loop.raw_induct[OF _ assms]) (auto split: prod.splits option.splits if_splits)

lemma ReadEvents_outcome:
  assumes "ReadEvents sys kq tsp buf s = Some (Inl x, s')"
  shows "x = ErrClosed
         \<or> (\<exists>e. e \<noteq> EINTR \<and> e \<noteq> EBADF \<and> x = Errorf_w ''Watch unavailable due kevent(2) error %w'' e)"
proof -
  have "case fst y of Inr r \<Rightarrow> True | Inl x \<Rightarrow> x = ErrClosed
         \<or> (\<exists>e. e \<noteq> EINTR \<and> e \<noteq> EBADF \<and> x = Errorf_w ''Watch unavailable due kevent(2) error %w'' e)"
    if "ReadEvents sys kq tsp buf s = Some y" for y
    by (rule ReadEvents.raw_induct[OF _ that]) (auto split: prod.splits option.splits if_splits)
  from this [OF assms] show ?thesis by simp
qed

lemma EpollWait_interrupted_loop:
  "EpollWait_interrupted sys epfd msec k buf s = Some (buf', s') \<Longrightarrow>
   EpollWait_loop sys epfd msec buf s = EpollWait_loop sys epfd msec buf' s'"
proof (induction k arbitrary: buf s)
  case 0
  then show ?case by simp
next
  case (Suc k)
  obtain n b err s1 where r: "sys s epfd buf msec = ((n, b, err), s1)"
    by (metis prod_cases3 surj_pair)
  with Suc.prems have e: "err = Some EINTR" and k: "EpollWait_interrupted sys epfd msec k b s1 = Some (buf', s')"
    by (auto split: if_splits)
  from r e have "EpollWait_loop sys epfd msec buf s = EpollWait_loop sys epfd msec b s1"
    by (simp add: EpollWait_loop_step)
  with Suc.IH [OF k] show ?case by simp
qed

lemma Kevent_interrupted_loop:
  "Kevent_interrupted sys kq tsp k buf s = Some (buf', s') \<Longrightarrow>
   ReadEvents sys kq tsp buf s = ReadEvents sys kq tsp buf' s'"
proof (induction k arbitrary: buf s)
  case 0
  then show ?case by simp
next
  case (Suc k)
  obtain n b err s1 where r: "sys s kq buf tsp = ((n, b, err), s1)"
    by (metis prod_cases3 surj_pair)
  with Suc.prems have e: "err = Some EINTR" and k: "Kevent_interrupted sys kq tsp k b s1 = Some (buf', s')"
    by (auto split: if_splits)
  from r e have "ReadEvents sys kq tsp buf s = ReadEvents sys kq tsp b s1"
    by (simp add: ReadEvents_step EINTR_def EBADF_def)
  with Suc.IH [OF k] show ?case by simp
qed

lemma logged_EpollWait_loop:
  assumes "EpollWait_loop (logged_EpollWait sys) epfd msec buf sl = Some y"
  shows "\<exists>k. snd (snd y) = snd sl @ replicate (Suc k) msec"
proof -
  have "sys' = logged_EpollWait sys \<longrightarrow> (\<exists>k. snd (snd y) = snd sl @ replicate (Suc k) msec)"
    if "EpollWait_loop sys' epfd msec buf sl = Some y" for sys'
  proof (rule EpollWait_loop.raw_induct[OF _ that], intro impI)
    fix loop sys' epfd msec buf sl y
    assume IH: "\<And>sys' epfd msec buf sl y. loop sys' epfd msec buf sl = Some y \<Longrightarrow>
        sys' = logged_EpollWait sys \<longrightarrow> (\<exists>k. snd (snd y) = snd sl @ replicate (Suc k) msec)"
      and body: "(case sys' sl epfd buf msec of
         ((n, buf', None), s') \<Rightarrow>
           if n = 0 then Some ((0, Some ErrTimeout), s')
           else Some ((int_of_int32 (Fd buf'), None), s')
       | ((n, buf', Some e), s') \<Rightarrow>
           if e = EINTR then loop sys' epfd msec buf' s'
           else Some ((0, Some (Errorf_w ''Watch unavailable due epoll_wait(2) error %w'' e)), s')) = Some y"
      and sys': "sys' = logged_EpollWait sys"
    obtain n b err s1 where r: "sys (fst sl) epfd buf msec = ((n, b, err), s1)"
      by (metis prod_cases3 surj_pair)
    then have l: "sys' sl epfd buf msec = ((n, b, err), (s1, snd sl @ [msec]))"
      by (simp add: sys' logged_EpollWait_def)
    show "\<exists>k. snd (snd y) = snd sl @ replicate (Suc k) msec"
    proof (cases "err = Some EINTR")
      case True
      with body l have "loop sys' epfd msec b (s1, snd sl @ [msec]) = Some y" by simp
      from IH [OF this] sys' obtain k where "snd (snd y) = (snd sl @ [msec]) @ replicate (Suc k) msec"
        by auto
      then have "snd (snd y) = snd sl @ replicate (Suc (Suc k)) msec" by simp
      then show ?thesis by blast
    next
      case False
      with body l have "snd (snd y) = snd sl @ replicate (Suc 0) msec"
        by (auto split: option.splits if_splits)
      then show ?thesis by blast
    qed
  qed
  from this [OF assms] show ?thesis by simp
qed

lemma logged_Kevent_wait_loop:
  assumes "ReadEvents (logged_Kevent_wait sys) kq tsp buf sl = Some y"
  shows "\<exists>k. snd (snd y) = snd sl @ replicate (Suc k) tsp"
proof -
  have "sys' = logged_Kevent_wait sys \<longrightarrow> (\<exists>k. snd (snd y) = snd sl @ replicate (Suc k) tsp)"
    if "ReadEvents sys' kq tsp buf sl = Some y" for sys'
  proof (rule ReadEvents.raw_induct[OF _ that], intro impI)
    fix loop sys' kq tsp buf sl y
    assume IH: "\<And>sys' kq tsp buf sl y. loop sys' kq tsp buf sl = Some y \<Longrightarrow>
        sys' = logged_Kevent_wait sys \<longrightarrow> (\<exists>k. snd (snd y) = snd sl @ replicate (Suc k) tsp)"
      and body: "(case sys' sl kq buf tsp of
         ((bufN, buf', None), s') \<Rightarrow> Some (Inr (bufN, buf'), s')
       | ((bufN, buf', Some e), s') \<Rightarrow>
           if e = EBADF then Some (Inl ErrClosed, s')
           else if e = EINTR then loop sys' kq tsp buf' s'
           else Some (Inl (Errorf_w ''Watch unavailable due kevent(2) error %w'' e), s')) = Some y"
      and sys': "sys' = logged_Kevent_wait sys"
    obtain n b err s1 where r: "sys (fst sl) kq buf tsp = ((n, b, err), s1)"
      by (metis prod_cases3 surj_pair)
    then have l: "sys' sl kq buf tsp = ((n, b, err), (s1, snd sl @ [tsp]))"
      by (simp add: sys' logged_Kevent_wait_def)
    show "\<exists>k. snd (snd y) = snd sl @ replicate (Suc k) tsp"
    proof (cases "err = Some EINTR")
      case True
      with body l have "loop sys' kq tsp b (s1, snd sl @ [tsp]) = Some y"
        by (simp add: EINTR_def EBADF_def)
      from IH [OF this] sys' obtain k where "snd (snd y) = (snd sl @ [tsp]) @ replicate (Suc k) tsp"
        by auto
      then have "snd (snd y) = snd sl @ replicate (Suc (Suc k)) tsp" by simp
      then show ?thesis by blast
    next
      case False
      with body l have "snd (snd y) = snd sl @ replicate (Suc 0) tsp"
        by (auto split: option.splits if_splits)
      then show ?thesis by blast
    qed
  qed
  from this [OF assms] show ?thesis by simp
qed

lemma AwaitFDWithRead_epoll_interrupted:
  "EpollWait_interrupted sys (epollFD w) (epoll_msec t) k \<lparr>Events = 0, Fd = 0, Pad = 0\<rparr> s = Some (buf, s1) \<Longrightarrow>
   AwaitFDWithRead_epoll sys w t s = EpollWait_loop sys (epollFD w) (epoll_msec t) buf s1"
  unfolding AwaitFDWithRead_epoll_def by (rule EpollWait_interrupted_loop)

section \<open>Interrupted waits\<close>

text \<open>
  C5. A wait that fails with \<open>EINTR\<close> is repeated and the caller never sees it, on both
  backends. Every result of \<open>AwaitFDWithRead\<close> is a descriptor with no error,
  \<open>ErrTimeout\<close>, \<open>ErrClosed\<close> (kqueue only) or the wrapped error of a wait that failed with
  another error number than \<open>EINTR\<close>. And the call does return: when the kernel
  interrupts the first \<open>k\<close> waits and answers the next one otherwise, \<open>AwaitFDWithRead\<close>
  returns in the state that answer leaves.
\<close>

theorem C5_EINTR_never_surfaces:
  fixes esys :: "'s EpollWait_sys" and ksys :: "'t Kevent_wait_sys"
  assumes "AwaitFDWithRead_epoll esys we t s = Some ((fd, err), s')"
    and "AwaitFDWithRead_kqueue N ksys wk t2 s2 = Some (((fd2, err2), wk'), s2')"
    and "EpollWait_interrupted esys (epollFD we) (epoll_msec t3) k
           \<lparr>Events = 0, Fd = 0, Pad = 0\<rparr> s3 = Some (buf3, s3')"
    and "esys s3' (epollFD we) buf3 (epoll_msec t3) = ((n3, buf3', err3), s3'')"
    and "err3 \<noteq> Some EINTR"
    and "Kevent_interrupted ksys (queueFD wk) (kqueue_tsp N t4) k4
           (Kevent_zero, Kevent_zero) s4 = Some (buf4, s4')"
    and "ksys s4' (queueFD wk) buf4 (kqueue_tsp N t4) = ((n4, buf4', err4), s4'')"
    and "err4 \<noteq> Some EINTR"
  shows "(err = None \<or> err = Some ErrTimeout
          \<or> (\<exists>e. e \<noteq> EINTR \<and> err = Some (Errorf_w ''Watch unavailable due epoll_wait(2) error %w'' e)))
       \<and> (err2 = None \<or> err2 = Some ErrTimeout \<or> err2 = Some ErrClosed
          \<or> (\<exists>e. e \<noteq> EINTR \<and> err2 = Some (Errorf_w ''Watch unavailable due kevent(2) error %w'' e)))
       \<and> (\<exists>r. AwaitFDWithRead_epoll esys we t3 s3 = Some (r, s3''))
       \<and> (\<exists>r. AwaitFDWithRead_kqueue N ksys wk t4 s4 = Some (r, s4''))"
proof (intro conjI)
  from EpollWait_loop_outcome [OF assms(1) [unfolded AwaitFDWithRead_epoll_def]]
  show "err = None \<or> err = Some ErrTimeout
          \<or> (\<exists>e. e \<noteq> EINTR \<and> err = Some (Errorf_w ''Watch unavailable due epoll_wait(2) error %w'' e))"
    by simp
next
  show "err2 = None \<or> err2 = Some ErrTimeout \<or> err2 = Some ErrClosed
          \<or> (\<exists>e. e \<noteq> EINTR \<and> err2 = Some (Errorf_w ''Watch unavailable due kevent(2) error %w'' e))"
    using assms(2) unfolding AwaitFDWithRead_kqueue_def
    by (auto split: option.splits sum.splits prod.splits if_splits simp: Let_def dest!: ReadEvents_outcome)
next
  have "AwaitFDWithRead_epoll esys we t3 s3 = EpollWait_loop esys (epollFD we) (epoll_msec t3) buf3 s3'"
    using assms(3) by (rule AwaitFDWithRead_epoll_interrupted)
  also have "\<dots> = (case err3 of
        None \<Rightarrow> if n3 = 0 then Some ((0, Some ErrTimeout), s3'')
                else Some ((int_of_int32 (Fd buf3'), None), s3'')
      | Some e \<Rightarrow> Some ((0, Some (Errorf_w ''Watch unavailable due epoll_wait(2) error %w'' e)), s3''))"
    using assms(5)
    by (simp add: EpollWait_loop_step [of esys s3' "epollFD we" buf3 "epoll_msec t3", OF assms(4)]
          split: option.splits)
  finally show "\<exists>r. AwaitFDWithRead_epoll esys we t3 s3 = Some (r, s3'')"
    by (simp split: option.splits)
next
  have "ReadEvents ksys (queueFD wk) (kqueue_tsp N t4) (Kevent_zero, Kevent_zero) s4
        = ReadEvents ksys (queueFD wk) (kqueue_tsp N t4) buf4 s4'"
    using assms(6) by (rule Kevent_interrupted_loop)
  also have "\<dots> = (case err4 of
        None \<Rightarrow> Some (Inr (n4, buf4'), s4'')
      | Some e \<Rightarrow>
          if e = EBADF then Some (Inl ErrClosed, s4'')
          else Some (Inl (Errorf_w ''Watch unavailable due kevent(2) error %w'' e), s4''))"
    using assms(8)
    by (simp add: ReadEvents_step [of ksys s4' "queueFD wk" buf4 "kqueue_tsp N t4", OF assms(7)]
          split: option.splits)
  finally show "\<exists>r. AwaitFDWithRead_kqueue N ksys wk t4 s4 = Some (r, s4'')"
    unfolding AwaitFDWithRead_kqueue_def by (simp split: option.splits add: Let_def)
qed

theorem C5_EINTR_never_surfaces_witness:
  "AwaitFDWithRead_epoll scripted_EpollWait \<lparr>epollFD = 3\<rparr> 1000000
      [(- 1, \<lparr>Events = 0, Fd = 0, Pad = 0\<rparr>, Some EINTR),
       (- 1, \<lparr>Events = 0, Fd = 0, Pad = 0\<rparr>, Some EINTR),
       (1, \<lparr>Events = 1, Fd = 5, Pad = 0\<rparr>, None)]
     = Some ((5, None), [])
   \<and> AwaitFDWithRead_kqueue NsecToTimespec scripted_Kevent_wait \<lparr>queueFD = 3, roundRobin = 0\<rparr> (- 1)
      [(- 1, (Kevent_zero, Kevent_zero), Some EINTR),
       (- 1, (Kevent_zero, Kevent_zero), Some 22)]
     = Some (((0, Some (Errorf_w ''Watch unavailable due kevent(2) error %w'' 22)),
               \<lparr>queueFD = 3, roundRobin = 0\<rparr>), [])
   \<and> (\<exists>e. e \<noteq> EINTR \<and> Some (Errorf_w ''Watch unavailable due kevent(2) error %w'' 22)
                          = Some (Errorf_w ''Watch unavailable due kevent(2) error %w'' e))"
proof -
  let ?z = "\<lparr>Events = 0, Fd = 0, Pad = 0\<rparr>"
  let ?es = "[(- 1, ?z, Some EINTR), (- 1, ?z, Some EINTR), (1, \<lparr>Events = 1, Fd = 5, Pad = 0\<rparr>, None)]"
  let ?ks = "[(- 1, (Kevent_zero, Kevent_zero), Some EINTR), (- 1, (Kevent_zero, Kevent_zero), Some (22 :: Errno))]"
  have h1: "AwaitFDWithRead_epoll scripted_EpollWait \<lparr>epollFD = 3\<rparr> 1000000 ?es = Some ((5, None), [])"
    by (simp add: AwaitFDWithRead_epoll_def EpollWait_loop.simps scripted_EpollWait_def scripted_def
        int_of_int32_def)
  have h2: "AwaitFDWithRead_kqueue NsecToTimespec scripted_Kevent_wait \<lparr>queueFD = 3, roundRobin = 0\<rparr> (- 1) ?ks
     = Some (((0, Some (Errorf_w ''Watch unavailable due kevent(2) error %w'' 22)),
               \<lparr>queueFD = 3, roundRobin = 0\<rparr>), [])"
    by (simp add: AwaitFDWithRead_kqueue_def ReadEvents.simps scripted_Kevent_wait_def scripted_def
        EINTR_def EBADF_def)
  have h3: "EpollWait_interrupted scripted_EpollWait (epollFD \<lparr>epollFD = 3\<rparr>) (epoll_msec 1000000)
      (Suc (Suc 0)) ?z ?es = Some (?z, [(1, \<lparr>Events = 1, Fd = 5, Pad = 0\<rparr>, None)])"
    by (simp add: scripted_EpollWait_def scripted_def)
  have h4: "scripted_EpollWait [(1, \<lparr>Events = 1, Fd = 5, Pad = 0\<rparr>, None)] (epollFD \<lparr>epollFD = 3\<rparr>) ?z
      (epoll_msec 1000000) = ((1, \<lparr>Events = 1, Fd = 5, Pad = 0\<rparr>, None), [])"
    by (simp add: scripted_EpollWait_def scripted_def)
  have h5: "(None :: Errno option) \<noteq> Some EINTR" by simp
  have h6: "Kevent_interrupted scripted_Kevent_wait (queueFD \<lparr>queueFD = 3, roundRobin = 0\<rparr>)
      (kqueue_tsp NsecToTimespec (- 1)) (Suc 0) (Kevent_zero, Kevent_zero) ?ks
      = Some ((Kevent_zero, Kevent_zero), [(- 1, (Kevent_zero, Kevent_zero), Some 22)])"
    by (simp add: scripted_Kevent_wait_def scripted_def)
  have h7: "scripted_Kevent_wait [(- 1, (Kevent_zero, Kevent_zero), Some 22)]
      (queueFD \<lparr>queueFD = 3, roundRobin = 0\<rparr>) (Kevent_zero, Kevent_zero)
      (kqueue_tsp NsecToTimespec (- 1)) = ((- 1, (Kevent_zero, Kevent_zero), Some 22), [])"
    by (simp add: scripted_Kevent_wait_def scripted_def)
  have h8: "Some (22 :: Errno) \<noteq> Some EINTR" by (simp add: EINTR_def)
  from C5_EINTR_never_surfaces [OF h1 h2 h3 h4 h5 h6 h7 h8] h1 h2
  show ?thesis by simp
qed

section \<open>Errors of the wait\<close>

text \<open>
  C8. When a wait fails with another error number than \<open>EINTR\<close>, after any number of
  interrupted waits, the kqueue backend returns \<open>ErrClosed\<close> for \<open>EBADF\<close> and the wrapped
  error for every other number; the epoll backend returns the wrapped error for every
  number, \<open>EBADF\<close> too: it has no \<open>ErrClosed\<close>.
\<close>

theorem C8_closed_or_wrapped:
  fixes ksys :: "'t Kevent_wait_sys" and esys :: "'s EpollWait_sys"
  assumes "Kevent_interrupted ksys (queueFD wk) (kqueue_tsp N t) k
             (Kevent_zero, Kevent_zero) s = Some (buf, s1)"
    and "ksys s1 (queueFD wk) buf (kqueue_tsp N t) = ((n, buf', Some e), s2)"
    and "e \<noteq> EINTR"
    and "EpollWait_interrupted esys (epollFD we) (epoll_msec t') k'
           \<lparr>Events = 0, Fd = 0, Pad = 0\<rparr> s' = Some (ebuf, s1')"
    and "esys s1' (epollFD we) ebuf (epoll_msec t') = ((n', ebuf', Some e'), s2')"
    and "e' \<noteq> EINTR"
  shows "AwaitFDWithRead_kqueue N ksys wk t s =
           Some (((0, Some (if e = EBADF then ErrClosed
                            else Errorf_w ''Watch unavailable due kevent(2) error %w'' e)), wk), s2)
       \<and> AwaitFDWithRead_epoll esys we t' s' =
           Some ((0, Some (Errorf_w ''Watch unavailable due epoll_wait(2) error %w'' e')), s2')"
proof
  have "ReadEvents ksys (queueFD wk) (kqueue_tsp N t) (Kevent_zero, Kevent_zero) s
        = ReadEvents ksys (queueFD wk) (kqueue_tsp N t) buf s1"
    using assms(1) by (rule Kevent_interrupted_loop)
  also have "\<dots> = Some (Inl (if e = EBADF then ErrClosed
                            else Errorf_w ''Watch unavailable due kevent(2) error %w'' e), s2)"
    using assms(3)
    by (simp add: ReadEvents_step [of ksys s1 "queueFD wk" buf "kqueue_tsp N t", OF assms(2)])
  finally show "AwaitFDWithRead_kqueue N ksys wk t s =
           Some (((0, Some (if e = EBADF then ErrClosed
                            else Errorf_w ''Watch unavailable due kevent(2) error %w'' e)), wk), s2)"
    unfolding AwaitFDWithRead_kqueue_def by simp
next
  have "AwaitFDWithRead_epoll esys we t' s' = EpollWait_loop esys (epollFD we) (epoll_msec t') ebuf s1'"
    using assms(4) by (rule AwaitFDWithRead_epoll_interrupted)
  also have "\<dots> = Some ((0, Some (Errorf_w ''Watch unavailable due epoll_wait(2) error %w'' e')), s2')"
    using assms(6)
    by (simp add: EpollWait_loop_step [of esys s1' "epollFD we" ebuf "epoll_msec t'", OF assms(5)])
  finally show "AwaitFDWithRead_epoll esys we t' s' =
           Some ((0, Some (Errorf_w ''Watch unavailable due epoll_wait(2) error %w'' e')), s2')" .
qed

theorem C8_closed_or_wrapped_witness:
  "AwaitFDWithRead_kqueue NsecToTimespec scripted_Kevent_wait \<lparr>queueFD = 3, roundRobin = 0\<rparr> 0
      [(- 1, (Kevent_zero, Kevent_zero), Some EINTR), (- 1, (Kevent_zero, Kevent_zero), Some EBADF)]
     = Some (((0, Some ErrClosed), \<lparr>queueFD = 3, roundRobin = 0\<rparr>), [])
   \<and> AwaitFDWithRead_epoll scripted_EpollWait \<lparr>epollFD = 3\<rparr> 0
      [(- 1, \<lparr>Events = 0, Fd = 0, Pad = 0\<rparr>, Some EBADF)]
     = Some ((0, Some (Errorf_w ''Watch unavailable due epoll_wait(2) error %w'' EBADF)), [])"
proof -
  let ?z = "\<lparr>Events = 0, Fd = 0, Pad = 0\<rparr>"
  let ?kz = "(Kevent_zero, Kevent_zero)"
  have h1: "Kevent_interrupted scripted_Kevent_wait (queueFD \<lparr>queueFD = 3, roundRobin = 0\<rparr>)
      (kqueue_tsp NsecToTimespec 0) (Suc 0) ?kz [(- 1, ?kz, Some EINTR), (- 1, ?kz, Some EBADF)]
      = Some (?kz, [(- 1, ?kz, Some EBADF)])"
    by (simp add: scripted_Kevent_wait_def scripted_def)
  have h2: "scripted_Kevent_wait [(- 1, ?kz, Some EBADF)] (queueFD \<lparr>queueFD = 3, roundRobin = 0\<rparr>) ?kz
      (kqueue_tsp NsecToTimespec 0) = ((- 1, ?kz, Some EBADF), [])"
    by (simp add: scripted_Kevent_wait_def scripted_def)
  have h3: "EBADF \<noteq> EINTR" by (simp add: EINTR_def EBADF_def)
  have h4: "EpollWait_interrupted scripted_EpollWait (epollFD \<lparr>epollFD = 3\<rparr>) (epoll_msec 0) 0 ?z
      [(- 1, ?z, Some EBADF)] = Some (?z, [(- 1, ?z, Some EBADF)])"
    by simp
  have h5: "scripted_EpollWait [(- 1, ?z, Some EBADF)] (epollFD \<lparr>epollFD = 3\<rparr>) ?z (epoll_msec 0)
      = ((- 1, ?z, Some EBADF), [])"
    by (simp add: scripted_EpollWait_def scripted_def)
  from C8_closed_or_wrapped [OF h1 h2 h3 h4 h5 h3] show ?thesis by simp
qed

section \<open>Two events at once\<close>

lemma roundRobin_index: "(x :: go_int) AND 1 = 0 \<or> x AND 1 = 1"
  by (simp add: and_one_eq mod_2_eq_odd)

lemma roundRobin_alternates: "((x :: go_int) + 1 + 1) AND 1 = 1 - ((x + 1) AND 1)"
  by (simp add: and_one_eq mod_2_eq_odd)

text \<open>
  C2. \<open>AwaitFDWithRead\<close> returns one descriptor, by its result type. On the kqueue
  backend, when the wait gives two events the call adds one to \<open>roundRobin\<close> and returns
  the ident of the event at index \<open>roundRobin&1\<close>; the next call that gets two events
  returns the event at the other index. The counter changes in no other case: the watch
  that a call leaves is the watch it was given unless the wait ended without error and
  with a count other than 0 and 1 (which is 2 for the two-slot buffer).
\<close>

theorem C2_round_robin:
  fixes sys :: "'s Kevent_wait_sys"
  assumes "ReadEvents sys (queueFD w) (kqueue_tsp N t) (Kevent_zero, Kevent_zero) s
             = Some (Inr (2, b1), s1)"
    and "ReadEvents sys (queueFD w) (kqueue_tsp N t') (Kevent_zero, Kevent_zero) s1
             = Some (Inr (2, b2), s2)"
    and "AwaitFDWithRead_kqueue N sys w3 t3 s3 = Some (((fd3, err3), w3'), s3')"
  shows "(\<exists>i. (i = 0 \<or> i = 1) \<and> i = (roundRobin w + 1) AND 1
            \<and> AwaitFDWithRead_kqueue N sys w t s =
                Some (((int_of_uint64 (Ident (index2 b1 i)), None),
                       w\<lparr>roundRobin := roundRobin w + 1\<rparr>), s1)
            \<and> AwaitFDWithRead_kqueue N sys (w\<lparr>roundRobin := roundRobin w + 1\<rparr>) t' s1 =
                Some (((int_of_uint64 (Ident (index2 b2 (1 - i))), None),
                       w\<lparr>roundRobin := roundRobin w + 1 + 1\<rparr>), s2))
       \<and> (w3' = w3
          \<or> w3' = w3\<lparr>roundRobin := roundRobin w3 + 1\<rparr>
            \<and> (\<exists>bufN buf. ReadEvents sys (queueFD w3) (kqueue_tsp N t3) (Kevent_zero, Kevent_zero) s3
                              = Some (Inr (bufN, buf), s3') \<and> bufN \<noteq> 0 \<and> bufN \<noteq> 1))"
proof
  let ?i = "(roundRobin w + 1) AND 1"
  have "AwaitFDWithRead_kqueue N sys w t s =
                Some (((int_of_uint64 (Ident (index2 b1 ?i)), None),
                       w\<lparr>roundRobin := roundRobin w + 1\<rparr>), s1)"
    using assms(1) by (simp add: AwaitFDWithRead_kqueue_def Let_def)
  moreover have "AwaitFDWithRead_kqueue N sys (w\<lparr>roundRobin := roundRobin w + 1\<rparr>) t' s1 =
                Some (((int_of_uint64 (Ident (index2 b2 ((roundRobin w + 1 + 1) AND 1))), None),
                       w\<lparr>roundRobin := roundRobin w + 1 + 1\<rparr>), s2)"
    using assms(2) by (simp add: AwaitFDWithRead_kqueue_def Let_def)
  then have "AwaitFDWithRead_kqueue N sys (w\<lparr>roundRobin := roundRobin w + 1\<rparr>) t' s1 =
                Some (((int_of_uint64 (Ident (index2 b2 (1 - ?i))), None),
                       w\<lparr>roundRobin := roundRobin w + 1 + 1\<rparr>), s2)"
    by (simp only: roundRobin_alternates)
  ultimately show "\<exists>i. (i = 0 \<or> i = 1) \<and> i = (roundRobin w + 1) AND 1
            \<and> AwaitFDWithRead_kqueue N sys w t s =
                Some (((int_of_uint64 (Ident (index2 b1 i)), None),
                       w\<lparr>roundRobin := roundRobin w + 1\<rparr>), s1)
            \<and> AwaitFDWithRead_kqueue N sys (w\<lparr>roundRobin := roundRobin w + 1\<rparr>) t' s1 =
                Some (((int_of_uint64 (Ident (index2 b2 (1 - i))), None),
                       w\<lparr>roundRobin := roundRobin w + 1 + 1\<rparr>), s2)"
    using roundRobin_index [of "roundRobin w + 1"] by blast
next
  show "w3' = w3
          \<or> w3' = w3\<lparr>roundRobin := roundRobin w3 + 1\<rparr>
            \<and> (\<exists>bufN buf. ReadEvents sys (queueFD w3) (kqueue_tsp N t3) (Kevent_zero, Kevent_zero) s3
                              = Some (Inr (bufN, buf), s3') \<and> bufN \<noteq> 0 \<and> bufN \<noteq> 1)"
    using assms(3) unfolding AwaitFDWithRead_kqueue_def
    by (auto split: option.splits sum.splits prod.splits if_splits simp: Let_def)
qed

theorem C2_round_robin_witness:
  "AwaitFDWithRead_kqueue NsecToTimespec scripted_Kevent_wait \<lparr>queueFD = 3, roundRobin = 0\<rparr> 0
      [(2, (Kevent_zero\<lparr>Ident := 7\<rparr>, Kevent_zero\<lparr>Ident := 8\<rparr>), None),
       (2, (Kevent_zero\<lparr>Ident := 7\<rparr>, Kevent_zero\<lparr>Ident := 8\<rparr>), None)]
     = Some (((8, None), \<lparr>queueFD = 3, roundRobin = 1\<rparr>),
             [(2, (Kevent_zero\<lparr>Ident := 7\<rparr>, Kevent_zero\<lparr>Ident := 8\<rparr>), None)])
   \<and> AwaitFDWithRead_kqueue NsecToTimespec scripted_Kevent_wait \<lparr>queueFD = 3, roundRobin = 1\<rparr> 0
      [(2, (Kevent_zero\<lparr>Ident := 7\<rparr>, Kevent_zero\<lparr>Ident := 8\<rparr>), None)]
     = Some (((7, None), \<lparr>queueFD = 3, roundRobin = 2\<rparr>), [])"
proof -
  let ?r = "(2 :: go_int, (Kevent_zero\<lparr>Ident := 7\<rparr>, Kevent_zero\<lparr>Ident := 8\<rparr>), None :: Errno option)"
  let ?w = "\<lparr>queueFD = 3, roundRobin = 0\<rparr>"
  have h1: "ReadEvents scripted_Kevent_wait (queueFD ?w) (kqueue_tsp NsecToTimespec 0)
      (Kevent_zero, Kevent_zero) [?r, ?r]
      = Some (Inr (2, (Kevent_zero\<lparr>Ident := 7\<rparr>, Kevent_zero\<lparr>Ident := 8\<rparr>)), [?r])"
    by (simp add: ReadEvents.simps scripted_Kevent_wait_def scripted_def)
  have h2: "ReadEvents scripted_Kevent_wait (queueFD ?w) (kqueue_tsp NsecToTimespec 0)
      (Kevent_zero, Kevent_zero) [?r]
      = Some (Inr (2, (Kevent_zero\<lparr>Ident := 7\<rparr>, Kevent_zero\<lparr>Ident := 8\<rparr>)), [])"
    by (simp add: ReadEvents.simps scripted_Kevent_wait_def scripted_def)
  have h3: "AwaitFDWithRead_kqueue NsecToTimespec scripted_Kevent_wait ?w 0 [?r, ?r]
      = Some (((8, None), \<lparr>queueFD = 3, roundRobin = 1\<rparr>), [?r])"
    by (simp add: AwaitFDWithRead_kqueue_def ReadEvents.simps scripted_Kevent_wait_def scripted_def
        index2_def int_of_uint64_def Kevent_zero_def)
  from C2_round_robin [OF h1 h2 h3] show ?thesis
    by (simp add: index2_def int_of_uint64_def Kevent_zero_def)
qed

section \<open>The timeout of a repeated wait\<close>

text \<open>
  Every wait of one \<open>AwaitFDWithRead\<close> call is given the same timeout, the one computed
  from the caller's duration before the loop: the kernel's record of the timeouts it was
  handed grows by one or more copies of that value. The source keeps no deadline and
  takes no time.
\<close>

lemma same_timeout_each_wait:
  fixes esys :: "'s EpollWait_sys" and ksys :: "'t Kevent_wait_sys"
  assumes "AwaitFDWithRead_epoll (logged_EpollWait esys) we t (s, log) = Some (r, (s', log'))"
    and "AwaitFDWithRead_kqueue N (logged_Kevent_wait ksys) wk t2 (s2, log2) = Some (r2, (s2', log2'))"
  shows "(\<exists>k. log' = log @ replicate (Suc k) (epoll_msec t))
       \<and> (\<exists>k. log2' = log2 @ replicate (Suc k) (kqueue_tsp N t2))"
proof
  from logged_EpollWait_loop [OF assms(1) [unfolded AwaitFDWithRead_epoll_def]]
  show "\<exists>k. log' = log @ replicate (Suc k) (epoll_msec t)" by simp
next
  from assms(2) obtain x where
    "ReadEvents (logged_Kevent_wait ksys) (queueFD wk) (kqueue_tsp N t2) (Kevent_zero, Kevent_zero) (s2, log2)
       = Some (x, (s2', log2'))"
    unfolding AwaitFDWithRead_kqueue_def
    by (auto split: option.splits sum.splits prod.splits if_splits simp: Let_def)
  from logged_Kevent_wait_loop [OF this]
  show "\<exists>k. log2' = log2 @ replicate (Suc k) (kqueue_tsp N t2)" by simp
qed

lemma same_timeout_each_wait_run:
  "AwaitFDWithRead_epoll (logged_EpollWait (idle_EpollWait 60000)) \<lparr>epollFD = 3\<rparr> (10 * Millisecond)
      (\<lparr>now = 0, next_signal = 9\<rparr>, [])
     = Some ((0, Some ErrTimeout), (\<lparr>now = 19, next_signal = 60009\<rparr>, [10, 10]))
   \<and> AwaitFDWithRead_kqueue NsecToTimespec (logged_Kevent_wait scripted_Kevent_wait)
      \<lparr>queueFD = 3, roundRobin = 0\<rparr> 1500000000
      ([(- 1, (Kevent_zero, Kevent_zero), Some EINTR)], [])
     = Some (((0, Some ErrTimeout), \<lparr>queueFD = 3, roundRobin = 0\<rparr>),
             ([], [Some \<lparr>Sec = 1, Nsec = 500000000\<rparr>, Some \<lparr>Sec = 1, Nsec = 500000000\<rparr>]))
   \<and> replicate (Suc (Suc 0)) (epoll_msec (10 * Millisecond)) = [10, 10]"
proof -
  have h1: "AwaitFDWithRead_epoll (logged_EpollWait (idle_EpollWait 60000)) \<lparr>epollFD = 3\<rparr> (10 * Millisecond)
      (\<lparr>now = 0, next_signal = 9\<rparr>, [])
     = Some ((0, Some ErrTimeout), (\<lparr>now = 19, next_signal = 60009\<rparr>, [10, 10]))"
    by (simp add: AwaitFDWithRead_epoll_def EpollWait_loop.simps logged_EpollWait_def
        idle_EpollWait_def epoll_msec_def div_int64_def Millisecond_def signed_divide_int_def
        word_sless_alt)
  have h2: "AwaitFDWithRead_kqueue NsecToTimespec (logged_Kevent_wait scripted_Kevent_wait)
      \<lparr>queueFD = 3, roundRobin = 0\<rparr> 1500000000
      ([(- 1, (Kevent_zero, Kevent_zero), Some EINTR)], [])
     = Some (((0, Some ErrTimeout), \<lparr>queueFD = 3, roundRobin = 0\<rparr>),
             ([], [Some \<lparr>Sec = 1, Nsec = 500000000\<rparr>, Some \<lparr>Sec = 1, Nsec = 500000000\<rparr>]))"
    by (simp add: AwaitFDWithRead_kqueue_def ReadEvents.simps logged_Kevent_wait_def
        scripted_Kevent_wait_def scripted_def kqueue_tsp_def NsecToTimespec_def div_int64_def
        mod_int64_def signed_divide_int_def signed_modulo_int_def word_sle_eq word_sless_alt
        EINTR_def EBADF_def)
  have h3: "replicate (Suc (Suc 0)) (epoll_msec (10 * Millisecond)) = [10, 10]"
    by (simp add: epoll_msec_def div_int64_def Millisecond_def signed_divide_int_def word_sless_alt)
  from same_timeout_each_wait [OF h1 h2] h1 h2 h3 show ?thesis by blast
qed

text \<open>
  C4. The timeout is meant to bound the whole call: the documentation of
  \<open>AwaitFDWithRead\<close> has a timeout that is not negative end in \<open>ErrTimeout\<close> on expiry, and
  the test of the empty watch wants a call with 500 ms back within 500 ms and a leeway of
  100 ms. A wait that a signal interrupts breaks it, as the next wait starts with the
  whole timeout again. A process gets a signal every minute, the next one in 9 ms, and
  waits for 10 ms on a watch with no descriptor: the first wait is interrupted at 9 ms,
  the second one is given 10 ms again, and the call returns \<open>ErrTimeout\<close> at 19 ms. With
  500 ms and a signal at 400 ms it returns at 900 ms, after the 600 ms of the test.
\<close>

theorem C4_total_wait_exceeds_timeout:
  "AwaitFDWithRead_epoll (idle_EpollWait 60000) \<lparr>epollFD = 3\<rparr> (10 * Millisecond)
      \<lparr>now = 0, next_signal = 9\<rparr>
     = Some ((0, Some ErrTimeout), \<lparr>now = 19, next_signal = 60009\<rparr>)
   \<and> epoll_msec (10 * Millisecond) = 10
   \<and> (10 :: nat) < 19
   \<and> AwaitFDWithRead_epoll (idle_EpollWait 60000) \<lparr>epollFD = 3\<rparr> (500 * Millisecond)
      \<lparr>now = 0, next_signal = 400\<rparr>
     = Some ((0, Some ErrTimeout), \<lparr>now = 900, next_signal = 60400\<rparr>)
   \<and> epoll_msec (500 * Millisecond) = 500
   \<and> (500 :: nat) + 100 < 900"
  by (simp add: AwaitFDWithRead_epoll_def EpollWait_loop.simps idle_EpollWait_def epoll_msec_def
      div_int64_def Millisecond_def signed_divide_int_def word_sless_alt)

section \<open>The casts of a descriptor\<close>

lemma signed_take_bit_31_uint:
  "signed_take_bit 31 (uint (fd :: 64 word)) = signed_take_bit 31 (sint fd)"
  by (simp add: signed_take_bit_eq_iff_take_bit_eq sint_uint take_bit_signed_take_bit)

lemma sint_int_of_int32:
  assumes "- 2147483648 \<le> sint fd" and "sint fd \<le> 2147483647"
  shows "sint (int_of_int32 (int32_of_int fd)) = sint fd"
proof -
  have low: "signed_take_bit 31 (sint fd) = sint fd"
    using assms by (simp add: signed_take_bit_int_eq_self)
  have "sint (ucast fd :: 32 word) = sint fd"
    by (simp add: signed_ucast_eq signed_take_bit_31_uint low)
  moreover have "signed_take_bit 63 (sint fd) = sint fd"
    using assms by (simp add: signed_take_bit_int_eq_self)
  ultimately show ?thesis
    by (simp add: int_of_int32_def int32_of_int_def signed_scast_eq)
qed

lemma int_of_int32_of_int:
  "- 2147483648 \<le> sint fd \<Longrightarrow> sint fd \<le> 2147483647 \<Longrightarrow> int_of_int32 (int32_of_int fd) = fd"
  using sint_int_of_int32 [of fd] by (simp add: word_eq_iff_signed [where ?'a = int])

lemma int_of_uint64_of_int: "int_of_uint64 (uint64_of_int fd) = fd"
  by (simp add: int_of_uint64_def uint64_of_int_def)

section \<open>The small kernel under the calls of the package\<close>











lemma mini_ready_knotes: "set (mini_ready k) \<subseteq> set (knotes k)"
  by (auto simp add: mini_ready_def)















section \<open>Membership\<close>

lemma mini_Kevent_change_ready:
  assumes "mini_Kevent_change k kq change slot tsp = ((n, ev, err), k')"
    and "Flags change AND EV_DELETE = 0 \<or> Ident change \<in> Ident ` set (knotes k)"
  shows "err = None \<and> (n = 0 \<or> ev \<in> set (knotes k'))"
proof -
  let ?rest = "filter (\<lambda>e. Ident e \<noteq> Ident change) (knotes k)"
  let ?k = "if Flags change AND EV_DELETE \<noteq> 0 then k\<lparr>knotes := ?rest\<rparr>
            else if Flags change AND EV_ADD \<noteq> 0 then k\<lparr>knotes := ?rest @ [change]\<rparr> else k"
  from assms(2) have c: "\<not> (Flags change AND EV_DELETE \<noteq> 0 \<and> Ident change \<notin> Ident ` set (knotes k))"
    by simp
  have m: "mini_Kevent_change k kq change slot tsp =
      (case mini_ready ?k of [] \<Rightarrow> ((0, slot, None), ?k) | e # es \<Rightarrow> ((1, e, None), ?k))"
    unfolding mini_Kevent_change_def Let_def if_not_P [OF c] ..
  show ?thesis
  proof (cases "mini_ready ?k")
    case Nil
    with m assms(1) show ?thesis by simp
  next
    case (Cons e es)
    then have "e \<in> set (knotes ?k)"
      using mini_ready_knotes [of ?k] by auto
    with Cons m assms(1) show ?thesis by auto
  qed
qed

lemma mini_kqueue_Include:
  "fst (IncludeFD_kqueue mini_Kevent_change w fd k) = None"
proof -
  let ?c = "IncludeFD_kqueue_change fd"
  obtain n ev err k' where r: "mini_Kevent_change k (queueFD w) ?c Kevent_zero
      (Some \<lparr>Sec = 0, Nsec = 0\<rparr>) = ((n, ev, err), k')"
    by (metis prod_cases3 surj_pair)
  have d: "Flags ?c AND EV_DELETE = 0"
    by (simp add: IncludeFD_kqueue_change_def EV_ADD_def EV_DELETE_def)
  from mini_Kevent_change_ready [OF r] d have err: "err = None" and ev: "n = 0 \<or> ev \<in> set (knotes k')"
    by auto
  have k': "knotes k' = filter (\<lambda>e. Ident e \<noteq> Ident ?c) (knotes k) @ [?c]"
    using r d by (auto simp add: mini_Kevent_change_def Let_def IncludeFD_kqueue_change_def EV_ADD_def
                    split: list.splits)
  have "n = 0 \<or> Ident ev \<noteq> uint64_of_int fd \<or> Flags ev AND EV_ERROR = 0"
  proof (cases "n = 0")
    case False
    with ev k' have "Ident ev \<noteq> Ident ?c \<or> ev = ?c" by auto
    then show ?thesis
      by (auto simp add: IncludeFD_kqueue_change_def EV_ADD_def EV_ERROR_def)
  qed simp
  with r err show ?thesis
    by (auto simp add: IncludeFD_kqueue_def Let_def)
qed

lemma mini_kqueue_Exclude_absent:
  assumes "uint64_of_int fd \<notin> Ident ` set (knotes k)"
  shows "ExcludeFD_kqueue mini_Kevent_change w fd k = (None, k)"
proof -
  let ?c = "ExcludeFD_kqueue_change fd"
  have "Flags ?c AND EV_DELETE \<noteq> 0 \<and> Ident ?c \<notin> Ident ` set (knotes k)"
    using assms by (simp add: ExcludeFD_kqueue_change_def EV_DELETE_def)
  then have "mini_Kevent_change k (queueFD w) ?c Kevent_zero (Some \<lparr>Sec = 0, Nsec = 0\<rparr>)
      = ((1, ?c\<lparr>Flags := EV_ERROR, Data := ENOENT\<rparr>, None), k)"
    by (simp add: mini_Kevent_change_def)
  then show ?thesis
    by (simp add: ExcludeFD_kqueue_def Let_def ExcludeFD_kqueue_change_def EV_ERROR_def
          Errno_of_int64_def)
qed

text \<open>
  C6. Including a descriptor twice and excluding one that is not included are no errors.
  On the epoll backend \<open>IncludeFD\<close> returns nil when \<open>epoll_ctl\<close> fails with \<open>EEXIST\<close> and
  \<open>ExcludeFD\<close> returns nil when it fails with \<open>ENOENT\<close>. On the kqueue backend \<open>ExcludeFD\<close>
  returns nil when the kernel answers the delete with an \<open>EV_ERROR\<close> event of the
  descriptor that carries \<open>ENOENT\<close>, and \<open>IncludeFD\<close> returns nil whenever the call was
  not refused and the event list holds no \<open>EV_ERROR\<close> event of the descriptor: it may
  hold nothing, or a plain event, as after an add of a descriptor that is registered and
  has unread data. On the kernel with a watch list these are the answers: there
  \<open>IncludeFD\<close> of a registered descriptor and \<open>ExcludeFD\<close> of one that is not registered
  return nil, on both backends.
\<close>

theorem C6_duplicate_and_absent_ignored:
  fixes esys :: "'s EpollCtl_sys" and ksys :: "'t Kevent_change_sys"
  assumes "esys s (epollFD we) EPOLL_CTL_ADD fd (IncludeFD_epoll_event fd) = (Some EEXIST, s')"
    and "esys sb (epollFD wx) EPOLL_CTL_DEL fdb (ExcludeFD_epoll_event fdb) = (Some ENOENT, sb')"
    and "ksys sc (queueFD wk) (ExcludeFD_kqueue_change fdc) Kevent_zero (Some \<lparr>Sec = 0, Nsec = 0\<rparr>)
           = ((n, ev, err), sc')"
    and "err = None \<or> err = Some EINTR"
    and "n \<noteq> 0"
    and "Ident ev = uint64_of_int fdc"
    and "Flags ev AND EV_ERROR \<noteq> 0"
    and "Errno_of_int64 (Data ev) = ENOENT"
    and "ksys sd (queueFD wl) (IncludeFD_kqueue_change fdd) Kevent_zero (Some \<lparr>Sec = 0, Nsec = 0\<rparr>)
           = ((nd, evd, errd), sd')"
    and "errd = None \<or> errd = Some EINTR"
    and "nd = 0 \<or> Ident evd \<noteq> uint64_of_int fdd \<or> Flags evd AND EV_ERROR = 0"
    and "is_descriptor fde" and "fde \<in> fst ` set (registered ke)"
    and "is_descriptor fdf" and "fdf \<notin> fst ` set (registered kf)"
    and "uint64_of_int fdh \<notin> Ident ` set (knotes kh)"
  shows "IncludeFD_epoll esys we fd s = (None, s')
       \<and> ExcludeFD_epoll esys wx fdb sb = (None, sb')
       \<and> ExcludeFD_kqueue ksys wk fdc sc = (None, sc')
       \<and> IncludeFD_kqueue ksys wl fdd sd = (None, sd')
       \<and> IncludeFD_epoll mini_EpollCtl wy fde ke = (None, ke)
       \<and> ExcludeFD_epoll mini_EpollCtl wz fdf kf = (None, kf)
       \<and> fst (IncludeFD_kqueue mini_Kevent_change wg fdg kg) = None
       \<and> ExcludeFD_kqueue mini_Kevent_change wh fdh kh = (None, kh)"
proof (intro conjI)
  show "IncludeFD_epoll esys we fd s = (None, s')"
    using assms(1) by (simp add: IncludeFD_epoll_def)
  show "ExcludeFD_epoll esys wx fdb sb = (None, sb')"
    using assms(2) by (simp add: ExcludeFD_epoll_def)
  show "ExcludeFD_kqueue ksys wk fdc sc = (None, sc')"
    using assms(3-8) by (auto simp add: ExcludeFD_kqueue_def Let_def)
  show "IncludeFD_kqueue ksys wl fdd sd = (None, sd')"
    using assms(9-11) by (auto simp add: IncludeFD_kqueue_def Let_def)
  show "IncludeFD_epoll mini_EpollCtl wy fde ke = (None, ke)"
    using assms(12,13) by (simp add: IncludeFD_epoll_def mini_EpollCtl_def)
  show "ExcludeFD_epoll mini_EpollCtl wz fdf kf = (None, kf)"
    using assms(14,15)
    by (simp add: ExcludeFD_epoll_def mini_EpollCtl_def EPOLL_CTL_ADD_def EPOLL_CTL_DEL_def)
  show "fst (IncludeFD_kqueue mini_Kevent_change wg fdg kg) = None"
    by (rule mini_kqueue_Include)
  show "ExcludeFD_kqueue mini_Kevent_change wh fdh kh = (None, kh)"
    using assms(16) by (rule mini_kqueue_Exclude_absent)
qed

theorem C6_duplicate_and_absent_ignored_witness:
  "IncludeFD_epoll mini_EpollCtl \<lparr>epollFD = 3\<rparr> 5
      \<lparr>registered = [(5, IncludeFD_epoll_event 5)], unread = [5]\<rparr>
     = (None, \<lparr>registered = [(5, IncludeFD_epoll_event 5)], unread = [5]\<rparr>)
   \<and> ExcludeFD_epoll mini_EpollCtl \<lparr>epollFD = 3\<rparr> 5 \<lparr>registered = [], unread = [5]\<rparr>
     = (None, \<lparr>registered = [], unread = [5]\<rparr>)
   \<and> ExcludeFD_kqueue mini_Kevent_change \<lparr>queueFD = 3, roundRobin = 0\<rparr> 5
        \<lparr>knotes = [], pending = [5]\<rparr>
     = (None, \<lparr>knotes = [], pending = [5]\<rparr>)
   \<and> IncludeFD_kqueue mini_Kevent_change \<lparr>queueFD = 3, roundRobin = 0\<rparr> 5
        \<lparr>knotes = [IncludeFD_kqueue_change 5], pending = [5]\<rparr>
     = (None, \<lparr>knotes = [IncludeFD_kqueue_change 5], pending = [5]\<rparr>)"
proof -
  let ?we = "\<lparr>epollFD = 3\<rparr>"
  let ?wk = "\<lparr>queueFD = 3, roundRobin = 0\<rparr>"
  let ?k = "\<lparr>registered = [(5, IncludeFD_epoll_event 5)], unread = [5]\<rparr>"
  let ?kn = "\<lparr>registered = [], unread = [5]\<rparr>"
  let ?q = "\<lparr>knotes = [IncludeFD_kqueue_change 5], pending = [5]\<rparr>"
  let ?qn = "\<lparr>knotes = [], pending = [5]\<rparr>"
  let ?ev = "(ExcludeFD_kqueue_change 5)\<lparr>Flags := EV_ERROR, Data := ENOENT\<rparr>"
  have h1: "mini_EpollCtl ?k (epollFD ?we) EPOLL_CTL_ADD 5 (IncludeFD_epoll_event 5) = (Some EEXIST, ?k)"
    by code_simp
  have h2: "mini_EpollCtl ?kn (epollFD ?we) EPOLL_CTL_DEL 5 (ExcludeFD_epoll_event 5) = (Some ENOENT, ?kn)"
    by code_simp
  have h3: "mini_Kevent_change ?qn (queueFD ?wk) (ExcludeFD_kqueue_change 5) Kevent_zero
      (Some \<lparr>Sec = 0, Nsec = 0\<rparr>) = ((1, ?ev, None), ?qn)"
    by code_simp
  have h4: "(None :: Errno option) = None \<or> (None :: Errno option) = Some EINTR" by simp
  have h5: "(1 :: go_int) \<noteq> 0" by simp
  have h6: "Ident ?ev = uint64_of_int 5" by code_simp
  have h7: "Flags ?ev AND EV_ERROR \<noteq> 0" by code_simp
  have h8: "Errno_of_int64 (Data ?ev) = ENOENT" by code_simp
  have h9: "mini_Kevent_change ?q (queueFD ?wk) (IncludeFD_kqueue_change 5) Kevent_zero
      (Some \<lparr>Sec = 0, Nsec = 0\<rparr>) = ((1, IncludeFD_kqueue_change 5, None), ?q)"
    by code_simp
  have h11: "(1 :: go_int) = 0 \<or> Ident (IncludeFD_kqueue_change 5) \<noteq> uint64_of_int 5
      \<or> Flags (IncludeFD_kqueue_change 5) AND EV_ERROR = 0"
    by code_simp
  have h12: "is_descriptor 5" by code_simp
  have h13: "5 \<in> fst ` set (registered ?k)" by simp
  have h15: "5 \<notin> fst ` set (registered ?kn)" by simp
  have h16: "uint64_of_int 5 \<notin> Ident ` set (knotes ?qn)" by simp
  from C6_duplicate_and_absent_ignored
         [where esys = mini_EpollCtl and ksys = mini_Kevent_change
            and s = ?k and sb = ?kn and sc = ?qn and sd = ?q
            and wy = ?we and wz = ?we and wg = ?wk and fdg = 5 and kg = ?q and wh = ?wk,
          OF h1 h2 h3 h4 h5 h6 h7 h8 h9 h4 h11 h12 h13 h12 h15 h16]
  show ?thesis by simp
qed

text \<open>
  C7. On the epoll backend \<open>IncludeFD\<close> returns \<open>ErrWatchable\<close> exactly when \<open>epoll_ctl\<close>
  fails with \<open>EPERM\<close>, and for every error number other than \<open>EEXIST\<close> and \<open>EPERM\<close> it returns
  the wrapped error of that number. The kqueue backend, which has no \<open>ErrWatchable\<close>, never
  returns it.
\<close>

theorem C7_ErrWatchable_is_EPERM:
  fixes sys :: "'s EpollCtl_sys" and ksys :: "'t Kevent_change_sys"
  assumes "sys sb (epollFD wb) EPOLL_CTL_ADD fdb (IncludeFD_epoll_event fdb) = (Some e, sb')"
    and "e \<noteq> EEXIST"
    and "e \<noteq> EPERM"
  shows "(fst (IncludeFD_epoll sys w fd s) = Some ErrWatchable
            \<longleftrightarrow> fst (sys s (epollFD w) EPOLL_CTL_ADD fd (IncludeFD_epoll_event fd)) = Some EPERM)
       \<and> IncludeFD_epoll sys wb fdb sb =
           (Some (Errorf_w ''Watch include of file lost on epoll_ctl(2) error %w'' e), sb')
       \<and> fst (IncludeFD_kqueue ksys wk fdc sc) \<noteq> Some ErrWatchable"
proof (intro conjI)
  show "fst (IncludeFD_epoll sys w fd s) = Some ErrWatchable
            \<longleftrightarrow> fst (sys s (epollFD w) EPOLL_CTL_ADD fd (IncludeFD_epoll_event fd)) = Some EPERM"
    by (cases "sys s (epollFD w) EPOLL_CTL_ADD fd (IncludeFD_epoll_event fd)")
       (auto simp add: IncludeFD_epoll_def EEXIST_def EPERM_def split: option.splits)
  show "IncludeFD_epoll sys wb fdb sb =
           (Some (Errorf_w ''Watch include of file lost on epoll_ctl(2) error %w'' e), sb')"
    using assms by (simp add: IncludeFD_epoll_def)
  show "fst (IncludeFD_kqueue ksys wk fdc sc) \<noteq> Some ErrWatchable"
    by (auto simp add: IncludeFD_kqueue_def Let_def split: prod.splits option.splits if_splits)
qed

theorem C7_ErrWatchable_is_EPERM_witness:
  "fst (IncludeFD_epoll scripted_EpollCtl \<lparr>epollFD = 3\<rparr> 5 [Some EPERM]) = Some ErrWatchable
   \<and> IncludeFD_epoll scripted_EpollCtl \<lparr>epollFD = 3\<rparr> 5 [Some EBADF] =
       (Some (Errorf_w ''Watch include of file lost on epoll_ctl(2) error %w'' EBADF), [])"
proof -
  have h1: "scripted_EpollCtl [Some EBADF] (epollFD \<lparr>epollFD = 3\<rparr>) EPOLL_CTL_ADD 5
      (IncludeFD_epoll_event 5) = (Some EBADF, [])"
    by (simp add: scripted_EpollCtl_def scripted_def)
  have h2: "EBADF \<noteq> EEXIST" by (simp add: EBADF_def EEXIST_def)
  have h3: "EBADF \<noteq> EPERM" by (simp add: EBADF_def EPERM_def)
  have h4: "fst (scripted_EpollCtl [Some EPERM] (epollFD \<lparr>epollFD = 3\<rparr>) EPOLL_CTL_ADD 5
      (IncludeFD_epoll_event 5)) = Some EPERM"
    by (simp add: scripted_EpollCtl_def scripted_def)
  from C7_ErrWatchable_is_EPERM
         [where sys = scripted_EpollCtl and sb = "[Some EBADF]" and s = "[Some EPERM]"
            and w = "\<lparr>epollFD = 3\<rparr>" and fd = 5
            and ksys = scripted_Kevent_change and wk = "\<lparr>queueFD = 3, roundRobin = 0\<rparr>"
            and fdc = 5 and sc = "[]", OF h1 h2 h3] h4
  show ?thesis by simp
qed

section \<open>Exclusion\<close>



section \<open>The file of a listener or a connection\<close>

text \<open>
  C9. \<open>ConnFile\<close> first looks for \<open>NetConn\<close> and, when the connection has it, goes on with
  the connection it returns, once; then it looks for \<open>File\<close> on the connection it has by
  then. A connection with \<open>NetConn\<close> gives the \<open>File\<close> result of the inner connection, also
  when it has a \<open>File\<close> of its own. A connection with neither method gives no file and an
  error with the name of its type; where \<open>NetConn\<close> was taken, the name is that of the
  inner connection, the one that was asked for \<open>File\<close>. \<open>ListenerFile\<close> gives the \<open>File\<close>
  result of a listener that has the method, and otherwise no file and an error with the
  name of the listener's type.
\<close>

theorem C9_capability_probing:
  "ConnFile (Some (Conn T (Some (Some (Conn U n (Some r)))) f)) = Inr r
   \<and> ConnFile (Some (Conn T (Some (Some (Conn U n None))) f)) =
       Inl (Errorf_T ''connection '' U '' does not provide its file'')
   \<and> ConnFile (Some (Conn T (Some None) f)) =
       Inl (Errorf_T ''connection '' ''<nil>'' '' does not provide its file'')
   \<and> ConnFile (Some (Conn T None (Some r))) = Inr r
   \<and> ConnFile (Some (Conn T None None)) =
       Inl (Errorf_T ''connection '' T '' does not provide its file'')
   \<and> ListenerFile (Some (Listener T (Some q))) = Inr q
   \<and> ListenerFile (Some (Listener T None)) =
       Inl (Errorf_T ''listener '' T '' does not provide its file'')"
  by (simp add: ConnFile_def ListenerFile_def)

section \<open>The descriptor in the kernel's event\<close>

text \<open>
  C10. A descriptor from 0 to \<open>2^31 - 1\<close> comes back as it went in. The epoll backend
  registers \<open>int32(fd)\<close> in the event's \<open>Fd\<close>, and when a wait reports an event with that
  \<open>Fd\<close>, \<open>AwaitFDWithRead\<close> returns \<open>fd\<close>. The kqueue backend registers \<open>uint64(uint(fd))\<close> as
  the \<open>Ident\<close>, and when the event it picks from a wait, the only one or one of two, has
  that \<open>Ident\<close>, \<open>AwaitFDWithRead\<close> returns \<open>fd\<close>; there the two casts undo each other for
  every \<open>int\<close>.
\<close>

theorem C10_descriptor_round_trip:
  fixes esys :: "'s EpollWait_sys" and ksys :: "'t Kevent_wait_sys"
  assumes "0 \<le>s fd" and "fd \<le>s 2147483647"
    and "esys s (epollFD we) \<lparr>Events = 0, Fd = 0, Pad = 0\<rparr> (epoll_msec t) = ((n, ev, None), s')"
    and "n \<noteq> 0"
    and "Fd ev = Fd (IncludeFD_epoll_event fd)"
    and "ksys sa (queueFD wk) (Kevent_zero, Kevent_zero) (kqueue_tsp N ta) = ((1, (kev, kev'), None), sa')"
    and "Ident kev = Ident (IncludeFD_kqueue_change fda)"
    and "ksys sb (queueFD wl) (Kevent_zero, Kevent_zero) (kqueue_tsp N tb) = ((2, kbuf, None), sb')"
    and "Ident (index2 kbuf ((roundRobin wl + 1) AND 1)) = Ident (IncludeFD_kqueue_change fdb)"
  shows "int_of_int32 (int32_of_int fd) = fd
       \<and> AwaitFDWithRead_epoll esys we t s = Some ((fd, None), s')
       \<and> int_of_uint64 (uint64_of_int fda) = fda
       \<and> AwaitFDWithRead_kqueue N ksys wk ta sa = Some (((fda, None), wk), sa')
       \<and> AwaitFDWithRead_kqueue N ksys wl tb sb =
           Some (((fdb, None), wl\<lparr>roundRobin := roundRobin wl + 1\<rparr>), sb')"
proof (intro conjI)
  show rt: "int_of_int32 (int32_of_int fd) = fd"
    using assms(1,2) by (intro int_of_int32_of_int) (simp_all add: word_sle_eq)
  have "EpollWait_loop esys (epollFD we) (epoll_msec t) \<lparr>Events = 0, Fd = 0, Pad = 0\<rparr> s
        = Some ((int_of_int32 (Fd ev), None), s')"
    using assms(4)
    by (simp add: EpollWait_loop_step [of esys s "epollFD we" "\<lparr>Events = 0, Fd = 0, Pad = 0\<rparr>"
                     "epoll_msec t", OF assms(3)])
  then show "AwaitFDWithRead_epoll esys we t s = Some ((fd, None), s')"
    using assms(5) rt by (simp add: AwaitFDWithRead_epoll_def IncludeFD_epoll_event_def)
  show "int_of_uint64 (uint64_of_int fda) = fda"
    by (rule int_of_uint64_of_int)
  have "ReadEvents ksys (queueFD wk) (kqueue_tsp N ta) (Kevent_zero, Kevent_zero) sa
        = Some (Inr (1, (kev, kev')), sa')"
    by (simp add: ReadEvents_step [of ksys sa "queueFD wk" "(Kevent_zero, Kevent_zero)"
                     "kqueue_tsp N ta", OF assms(6)])
  then show "AwaitFDWithRead_kqueue N ksys wk ta sa = Some (((fda, None), wk), sa')"
    using assms(7)
    by (simp add: AwaitFDWithRead_kqueue_def IncludeFD_kqueue_change_def int_of_uint64_of_int)
  have "ReadEvents ksys (queueFD wl) (kqueue_tsp N tb) (Kevent_zero, Kevent_zero) sb
        = Some (Inr (2, kbuf), sb')"
    by (simp add: ReadEvents_step [of ksys sb "queueFD wl" "(Kevent_zero, Kevent_zero)"
                     "kqueue_tsp N tb", OF assms(8)])
  then show "AwaitFDWithRead_kqueue N ksys wl tb sb =
           Some (((fdb, None), wl\<lparr>roundRobin := roundRobin wl + 1\<rparr>), sb')"
    using assms(9)
    by (simp add: AwaitFDWithRead_kqueue_def IncludeFD_kqueue_change_def int_of_uint64_of_int Let_def)
qed

theorem C10_descriptor_round_trip_witness:
  "AwaitFDWithRead_epoll scripted_EpollWait \<lparr>epollFD = 3\<rparr> 0 [(1, IncludeFD_epoll_event 2147483647, None)]
     = Some ((2147483647, None), [])
   \<and> AwaitFDWithRead_kqueue NsecToTimespec scripted_Kevent_wait \<lparr>queueFD = 3, roundRobin = 0\<rparr> 0
        [(1, (IncludeFD_kqueue_change 5, Kevent_zero), None)]
     = Some (((5, None), \<lparr>queueFD = 3, roundRobin = 0\<rparr>), [])
   \<and> AwaitFDWithRead_kqueue NsecToTimespec scripted_Kevent_wait \<lparr>queueFD = 3, roundRobin = 0\<rparr> 0
        [(2, (IncludeFD_kqueue_change 5, IncludeFD_kqueue_change 6), None)]
     = Some (((6, None), \<lparr>queueFD = 3, roundRobin = 1\<rparr>), [])"
proof -
  let ?wk = "\<lparr>queueFD = 3, roundRobin = 0\<rparr>"
  have h1: "(0 :: go_int) \<le>s 2147483647" by (simp add: word_sle_eq)
  have h2: "(2147483647 :: go_int) \<le>s 2147483647" by simp
  have h3: "scripted_EpollWait [(1, IncludeFD_epoll_event 2147483647, None)] (epollFD \<lparr>epollFD = 3\<rparr>)
      \<lparr>Events = 0, Fd = 0, Pad = 0\<rparr> (epoll_msec 0)
      = ((1, IncludeFD_epoll_event 2147483647, None), [])"
    by (simp add: scripted_EpollWait_def scripted_def)
  have h4: "(1 :: go_int) \<noteq> 0" by simp
  have h5: "Fd (IncludeFD_epoll_event 2147483647) = Fd (IncludeFD_epoll_event 2147483647)" by simp
  have h6: "scripted_Kevent_wait [(1, (IncludeFD_kqueue_change 5, Kevent_zero), None)] (queueFD ?wk)
      (Kevent_zero, Kevent_zero) (kqueue_tsp NsecToTimespec 0)
      = ((1, (IncludeFD_kqueue_change 5, Kevent_zero), None), [])"
    by (simp add: scripted_Kevent_wait_def scripted_def)
  have h7: "Ident (IncludeFD_kqueue_change 5) = Ident (IncludeFD_kqueue_change 5)" by simp
  have h8: "scripted_Kevent_wait [(2, (IncludeFD_kqueue_change 5, IncludeFD_kqueue_change 6), None)]
      (queueFD ?wk) (Kevent_zero, Kevent_zero) (kqueue_tsp NsecToTimespec 0)
      = ((2, (IncludeFD_kqueue_change 5, IncludeFD_kqueue_change 6), None), [])"
    by (simp add: scripted_Kevent_wait_def scripted_def)
  have h9: "Ident (index2 (IncludeFD_kqueue_change 5, IncludeFD_kqueue_change 6) ((roundRobin ?wk + 1) AND 1))
      = Ident (IncludeFD_kqueue_change 6)"
    by (simp add: index2_def)
  from C10_descriptor_round_trip
         [where esys = scripted_EpollWait and ksys = scripted_Kevent_wait and N = NsecToTimespec
            and s = "[(1, IncludeFD_epoll_event 2147483647, None)]"
            and sa = "[(1, (IncludeFD_kqueue_change 5, Kevent_zero), None)]"
            and sb = "[(2, (IncludeFD_kqueue_change 5, IncludeFD_kqueue_change 6), None)]",
          OF h1 h2 h3 h4 h5 h6 h7 h8 h9]
  show ?thesis by simp
qed

end
